theory Spec2Isabelle
  imports Complex_Main "HOL-Library.Word" "HOL-Library.Multiset"
    "HOL-Library.Char_ord" "HOL-Library.List_Lexorder"
begin

section \<open>Values, errors and arrays\<close>

text \<open>
  The development embeds \<^verbatim>\<open>utils.py\<close> of the DICOM converter. Python exceptions
  are values of \<open>error\<close>; a function that can raise returns \<open>error + 'a\<close> with
  \<open>Inl\<close> for the exception. \<open>LibraryError\<close> stands for whatever an external
  library (pydicom, OpenCV, the operating system) raises.
\<close>

datatype error =
    AttributeError
  | IndexError
  | TypeError
  | ValueError
  | KeyError
  | OSError "string list"
  | Exception string
  | LibraryError string

text \<open>
  A numpy array is its shape and its samples in row-major order. Float samples are
  modelled as exact reals: every float64 operation is read as the exact operation, so
  a byte computed here can differ by one from the byte the code computes where
  rounding moves a value across a whole number. \<open>NaN\<close> is added where the source can
  produce it. A \<open>uint8\<close> sample is \<open>Some\<close> byte, or \<open>None\<close> where the cast that
  produced it has no value fixed by numpy (a finite sample outside the range of a byte).
\<close>

record 'a ndarray =
  shape :: "nat list"
  data :: "'a list"

datatype npfloat = Finite real | NaN

type_synonym npuint8 = "8 word option"

text \<open>
  The value of a numeric data element as pydicom hands it out: empty (\<open>None\<close> in
  Python), a single number, or a \<open>MultiValue\<close> sequence.
\<close>

datatype dsval = NoValue | Scalar real | MultiValue "real list"

record dataset =
  SOPClassUID :: "string option"
  RescaleSlope :: "dsval option"
  RescaleIntercept :: "dsval option"
  VOILUTFunction :: "string option"
  WindowCenter :: "dsval option"
  WindowWidth :: "dsval option"
  PhotometricInterpretation :: "string option"
  SeriesNumber :: "string option"
  InstanceNumber :: "string option"
  pixel_array :: "error + real ndarray"

text \<open>
  A field of \<open>dataset\<close> is \<open>None\<close> when the tag is absent (\<open>'Tag' in ds\<close> is false
  and \<open>ds.Tag\<close> raises \<open>AttributeError\<close>). \<open>SeriesNumber\<close> and
  \<open>InstanceNumber\<close> hold the text an f-string renders for the value.
  \<open>pixel_array\<close> is \<open>ds.pixel_array.astype(float)\<close>, which may raise.
\<close>

section \<open>Paths\<close>

text \<open>
  A \<open>pathlib\<close> path is its tuple of parts (POSIX flavour): an absolute path starts
  with the part \<open>''/''\<close>, the path \<open>.\<close> has no parts.
\<close>

type_synonym path = "string list"

fun split_on :: "char \<Rightarrow> string \<Rightarrow> string list" where
  "split_on c [] = [[]]"
| "split_on c (x # xs) =
     (if x = c then [] # split_on c xs
      else (case split_on c xs of [] \<Rightarrow> [[x]] | w # ws \<Rightarrow> (x # w) # ws))"

definition Path :: "string \<Rightarrow> path" where
  "Path s =
     (let root = (if take 2 s = ''//'' \<and> take 3 s \<noteq> ''///'' then [''//'']
                  else if take 1 s = ''/'' then [''/''] else [])
      in root @ filter (\<lambda>c. c \<noteq> [] \<and> c \<noteq> ''.'') (split_on (CHR ''/'') s))"

definition is_absolute :: "path \<Rightarrow> bool" where
  "is_absolute p = (case p of [] \<Rightarrow> False | r # _ \<Rightarrow> take 1 r = ''/'')"

definition path_div :: "path \<Rightarrow> path \<Rightarrow> path" where
  "path_div a b = (if is_absolute b then b else a @ b)"

definition parent :: "path \<Rightarrow> path" where
  "parent p = (if is_absolute p \<and> length p = 1 then p else butlast p)"

definition path_name :: "path \<Rightarrow> string" where
  "path_name p = (if p = [] \<or> (is_absolute p \<and> length p = 1) then [] else last p)"

fun join :: "string \<Rightarrow> string list \<Rightarrow> string" where
  "join sep [] = []"
| "join sep [x] = x"
| "join sep (x # y # ys) = x @ sep @ join sep (y # ys)"

definition path_str :: "path \<Rightarrow> string" where
  "path_str p =
     (if p = [] then ''.''
      else if is_absolute p then hd p @ join ''/'' (tl p)
      else join ''/'' p)"

text \<open>\<open>str.rfind('.')\<close>, and \<open>PurePath.suffix\<close> built on it.\<close>

definition rfind_dot :: "string \<Rightarrow> nat option" where
  "rfind_dot n =
     (if CHR ''.'' \<in> set n
      then Some (length n - 1 - length (takeWhile (\<lambda>c. c \<noteq> CHR ''.'') (rev n)))
      else None)"

definition path_suffix :: "path \<Rightarrow> string" where
  "path_suffix p =
     (let n = path_name p in
      case rfind_dot n of
        None \<Rightarrow> []
      | Some i \<Rightarrow> if 0 < i \<and> i < length n - 1 then drop i n else [])"

text \<open>\<open>str.lower\<close> on ASCII text, and \<open>str.endswith\<close>.\<close>

definition lower_char :: "char \<Rightarrow> char" where
  "lower_char c =
     (if CHR ''A'' \<le> c \<and> c \<le> CHR ''Z'' then char_of (of_char c + (32::nat)) else c)"

definition lower :: "string \<Rightarrow> string" where
  "lower s = map lower_char s"

definition endswith :: "string \<Rightarrow> string \<Rightarrow> bool" where
  "endswith s suf = (length suf \<le> length s \<and> drop (length s - length suf) s = suf)"

section \<open>External collaborators\<close>

text \<open>
  Everything the module calls but does not define is a field of \<open>env\<close>:
  \<open>pydicom.dcmread\<close>, pydicom's \<open>apply_modality_lut\<close> and \<open>apply_voi_lut\<close>,
  \<open>Path.mkdir\<close> (\<open>None\<close> when it succeeds), \<open>cv2.imwrite\<close> (with the optional
  JPEG quality; its boolean result says whether the file was written), and the file
  system queries \<open>Path.exists\<close>, \<open>Path.is_file\<close>, \<open>Path.is_dir\<close> and
  \<open>os.walk\<close> (the triples \<open>(root, subfolders, files)\<close> it yields).
\<close>

record env =
  dcmread :: "path \<Rightarrow> error + dataset"
  apply_modality_lut :: "real ndarray \<Rightarrow> dataset \<Rightarrow> error + real ndarray"
  apply_voi_lut :: "real ndarray \<Rightarrow> dataset \<Rightarrow> error + real ndarray"
  mkdir :: "path \<Rightarrow> error option"
  imwrite :: "string \<Rightarrow> npuint8 ndarray \<Rightarrow> nat option \<Rightarrow> error + bool"
  path_exists :: "path \<Rightarrow> bool"
  path_is_file :: "path \<Rightarrow> bool"
  path_is_dir :: "path \<Rightarrow> bool"
  os_walk :: "path \<Rightarrow> (string \<times> string list \<times> string list) list"

text \<open>
  The effects of a run on the destination: the directories \<open>Path.mkdir\<close> was asked
  for and the files \<open>cv2.imwrite\<close> wrote, latest first.
\<close>

record world =
  dirs :: "path list"
  files :: "(path \<times> npuint8 ndarray) list"

section \<open>The pixel pipeline\<close>

definition is_unsupported :: "dataset \<Rightarrow> error + string option" where
  "is_unsupported ds =
     (case SOPClassUID ds of
        None \<Rightarrow> Inl AttributeError
      | Some uid \<Rightarrow>
          if uid = ''1.2.840.10008.5.1.4.1.1.104.1'' then Inr (Some ''Encapsulated PDF Storage'')
          else if uid = ''1.2.840.10008.5.1.4.1.1.88.59''
            then Inr (Some ''Key Object Selection Document'')
          else Inr None)"

text \<open>\<open>ndarray.min()\<close> and \<open>ndarray.max()\<close>: a zero-size array raises \<open>ValueError\<close>.\<close>

definition amin :: "real list \<Rightarrow> error + real" where
  "amin xs = (case xs of [] \<Rightarrow> Inl ValueError | x # ys \<Rightarrow> Inr (fold min ys x))"

definition amax :: "real list \<Rightarrow> error + real" where
  "amax xs = (case xs of [] \<Rightarrow> Inl ValueError | x # ys \<Rightarrow> Inr (fold max ys x))"

text \<open>
  \<open>np.piecewise\<close> with one function more than conditions: the extra condition is
  "none of the others"; the output starts at zero and, for each condition in order,
  the samples where it holds are overwritten, so a later condition wins where two hold.
\<close>

definition piecewise ::
  "real list \<Rightarrow> (real \<Rightarrow> bool) list \<Rightarrow> (real \<Rightarrow> real) list \<Rightarrow> real list" where
  "piecewise xs condlist funclist =
     (let condelse = (\<lambda>x. \<not> list_ex (\<lambda>c. c x) condlist);
          cf = zip (condlist @ [condelse]) funclist
      in map (\<lambda>x. fold (\<lambda>(c, f) y. if c x then f x else y) cf 0) xs)"

definition get_LUT_value_LINEAR_EXACT ::
  "real ndarray \<Rightarrow> real \<Rightarrow> real \<Rightarrow> error + real ndarray" where
  "get_LUT_value_LINEAR_EXACT arr window level =
     (case amin (data arr) of Inl e \<Rightarrow> Inl e | Inr data_min \<Rightarrow>
     (case amax (data arr) of Inl e \<Rightarrow> Inl e | Inr data_max \<Rightarrow>
        let data_range = data_max - data_min in
        Inr (arr\<lparr>data := piecewise (data arr)
               [\<lambda>x. x \<le> level - window / 2, \<lambda>x. x > level + window / 2]
               [\<lambda>x. data_min, \<lambda>x. data_max,
                \<lambda>x. ((x - level + window / 2) / window * data_range) + data_min]\<rparr>)))"

text \<open>\<open>float(v)\<close> on a data element value.\<close>

definition py_float :: "dsval \<Rightarrow> error + real" where
  "py_float v = (case v of Scalar r \<Rightarrow> Inr r | _ \<Rightarrow> Inl TypeError)"

text \<open>
  Lines 55 to 62: \<open>float(v[0])\<close> when the value is a \<open>MultiValue\<close>, \<open>float(v)\<close>
  otherwise.
\<close>

definition first_float :: "dsval \<Rightarrow> error + real" where
  "first_float v =
     (case v of
        MultiValue vs \<Rightarrow> (case vs of [] \<Rightarrow> Inl IndexError | x # _ \<Rightarrow> Inr x)
      | _ \<Rightarrow> py_float v)"

text \<open>Lines 37 to 45 of \<open>_pixel_process\<close>: the modality LUT.\<close>

definition modality_step :: "env \<Rightarrow> dataset \<Rightarrow> real ndarray \<Rightarrow> error + real ndarray" where
  "modality_step ev ds arr =
     (case (RescaleSlope ds, RescaleIntercept ds) of
        (Some s, Some i) \<Rightarrow>
          (case py_float s of Inl e \<Rightarrow> Inl e | Inr rescale_slope \<Rightarrow>
          (case py_float i of Inl e \<Rightarrow> Inl e | Inr rescale_intercept \<Rightarrow>
             Inr (arr\<lparr>data := map (\<lambda>x. x * rescale_slope + rescale_intercept) (data arr)\<rparr>)))
      | _ \<Rightarrow> apply_modality_lut ev arr ds)"

text \<open>Lines 49 to 66: the VOI LUT, by sigmoid, by window, or by the embedded table.\<close>

definition voi_step :: "env \<Rightarrow> dataset \<Rightarrow> real ndarray \<Rightarrow> error + real ndarray" where
  "voi_step ev ds arr =
     (if VOILUTFunction ds = Some ''SIGMOID'' then apply_voi_lut ev arr ds
      else (case (WindowCenter ds, WindowWidth ds) of
        (Some wc, Some ww) \<Rightarrow>
          (case first_float wc of Inl e \<Rightarrow> Inl e | Inr window_center \<Rightarrow>
          (case first_float ww of Inl e \<Rightarrow> Inl e | Inr window_width \<Rightarrow>
             get_LUT_value_LINEAR_EXACT arr window_width window_center))
      | _ \<Rightarrow> apply_voi_lut ev arr ds))"

text \<open>
  Line 70, \<open>(a - a.min()) / (a.max() - a.min()) * 255.0\<close>. Division by zero does not
  raise in numpy: when the maximum equals the minimum every sample is \<open>0 / 0\<close>, a
  not-a-number, and stays one after the multiplication.
\<close>

definition normalize :: "real ndarray \<Rightarrow> error + npfloat ndarray" where
  "normalize arr =
     (case amin (data arr) of Inl e \<Rightarrow> Inl e | Inr mn \<Rightarrow>
     (case amax (data arr) of Inl e \<Rightarrow> Inl e | Inr mx \<Rightarrow>
        Inr \<lparr>shape = shape arr,
             data = (if mx - mn = 0 then replicate (length (data arr)) NaN
                     else map (\<lambda>x. Finite ((x - mn) / (mx - mn) * 255)) (data arr))\<rparr>))"

fun finite_val :: "npfloat \<Rightarrow> real" where
  "finite_val (Finite x) = x"
| "finite_val NaN = 0"

definition np_max :: "npfloat list \<Rightarrow> error + npfloat" where
  "np_max xs =
     (case xs of
        [] \<Rightarrow> Inl ValueError
      | x # ys \<Rightarrow> if NaN \<in> set xs then Inr NaN
                  else Inr (Finite (fold max (map finite_val ys) (finite_val x))))"

fun fsub :: "npfloat \<Rightarrow> npfloat \<Rightarrow> npfloat" where
  "fsub (Finite a) (Finite b) = Finite (a - b)"
| "fsub _ _ = NaN"

text \<open>Lines 72 to 74: \<open>np.max(a) - a\<close> for \<open>MONOCHROME1\<close>.\<close>

definition invert_step :: "dataset \<Rightarrow> npfloat ndarray \<Rightarrow> error + npfloat ndarray" where
  "invert_step ds arr =
     (if PhotometricInterpretation ds = Some ''MONOCHROME1''
      then (case np_max (data arr) of Inl e \<Rightarrow> Inl e
            | Inr m \<Rightarrow> Inr (arr\<lparr>data := map (\<lambda>x. fsub m x) (data arr)\<rparr>))
      else Inr arr)"

text \<open>
  \<open>astype('uint8')\<close>: truncation for a sample in the range of a byte. numpy hands
  the cast of a not-a-number to the C conversion of the platform, which warns and
  yields the byte 0 (x86-64 and AArch64); that is the value taken here. No value is
  fixed for a finite sample out of range.
\<close>

fun astype_uint8 :: "npfloat \<Rightarrow> npuint8" where
  "astype_uint8 (Finite x) = (if 0 \<le> x \<and> x < 256 then Some (word_of_int \<lfloor>x\<rfloor>) else None)"
| "astype_uint8 NaN = Some 0"

definition pixel_process :: "env \<Rightarrow> dataset \<Rightarrow> real ndarray \<Rightarrow> error + npuint8 ndarray" where
  "pixel_process ev ds arr =
     (case modality_step ev ds arr of Inl e \<Rightarrow> Inl e | Inr a1 \<Rightarrow>
     (case voi_step ev ds a1 of Inl e \<Rightarrow> Inl e | Inr a2 \<Rightarrow>
     (case normalize a2 of Inl e \<Rightarrow> Inl e | Inr a3 \<Rightarrow>
     (case invert_step ds a3 of Inl e \<Rightarrow> Inl e | Inr a4 \<Rightarrow>
        Inr \<lparr>shape = shape a4, data = map astype_uint8 (data a4)\<rparr>))))"

section \<open>One conversion task\<close>

text \<open>
  Line 171, \<open>pixel_array[:, :, [0, 2]] = pixel_array[:, :, [2, 0]]\<close>: an array with
  fewer than three axes, or a third axis shorter than three, raises \<open>IndexError\<close>;
  otherwise positions 0 and 2 of the third axis trade places. \<open>swap_src\<close> gives, for
  a row-major offset, the offset its new sample comes from.
\<close>

definition swap_src :: "nat \<Rightarrow> nat \<Rightarrow> nat \<Rightarrow> nat" where
  "swap_src d2 inner n =
     (let i2 = (n div inner) mod d2 in
      if i2 = 0 then n + 2 * inner else if i2 = 2 then n - 2 * inner else n)"

definition channel_swap :: "'a ndarray \<Rightarrow> error + 'a ndarray" where
  "channel_swap arr =
     (case shape arr of
        d0 # d1 # d2 # rest \<Rightarrow>
          if d2 < 3 then Inl IndexError
          else Inr (arr\<lparr>data := map (\<lambda>n. data arr ! swap_src d2 (prod_list rest) n)
                                    [0 ..< length (data arr)]\<rparr>)
      | _ \<Rightarrow> Inl IndexError)"

record metadata =
  meta_SeriesNumber :: string
  meta_InstanceNumber :: string

definition get_metadata :: "dataset \<Rightarrow> metadata" where
  "get_metadata ds =
     \<lparr>meta_SeriesNumber = (case SeriesNumber ds of Some s \<Rightarrow> s | None \<Rightarrow> ''Ser''),
      meta_InstanceNumber = (case InstanceNumber ds of Some s \<Rightarrow> s | None \<Rightarrow> ''Ins'')\<rparr>"

text \<open>
  \<open>patient_dict\<close> is \<open>None\<close> or a dictionary: subscripting \<open>None\<close> raises
  \<open>TypeError\<close>, a missing key \<open>KeyError\<close>.
\<close>

definition get_export_file_path ::
  "dataset \<Rightarrow> path \<Rightarrow> path \<Rightarrow> string \<Rightarrow> bool \<Rightarrow> (path \<rightharpoonup> path) option \<Rightarrow> error + path" where
  "get_export_file_path ds file_path target_root filetype anonymous patient_dict =
     (if anonymous then
        (case patient_dict of
           None \<Rightarrow> Inl TypeError
         | Some d \<Rightarrow> (case d file_path of None \<Rightarrow> Inl KeyError | Some fp \<Rightarrow> Inr fp))
      else
        (let patient_metadata = get_metadata ds;
             sn = meta_SeriesNumber patient_metadata;
             inn = meta_InstanceNumber patient_metadata
         in Inr (path_div target_root (Path (sn @ ''_'' @ inn @ ''.'' @ filetype)))))"

text \<open>What \<open>_ds_to_file\<close> returns: \<open>True\<close>, or the message for the caller to print.\<close>

datatype rv = RTrue | RMessage string

definition color_interpretations :: "string list" where
  "color_interpretations =
     [''YBR_RCT'', ''RGB'', ''YBR_ICT'', ''YBR_PARTIAL_420'', ''YBR_FULL_422'', ''YBR_FULL'',
      ''PALETTE COLOR'']"

definition is_color :: "dataset \<Rightarrow> bool" where
  "is_color ds =
     (case PhotometricInterpretation ds of
        None \<Rightarrow> False
      | Some p \<Rightarrow> p \<in> set color_interpretations)"

definition unsupported_message :: "path \<Rightarrow> string \<Rightarrow> string" where
  "unsupported_message file_path nm =
     path_str file_path @ '' cannot be converted.'' @ [CHR 0x0A] @ nm
       @ '' is currently not supported''"

definition multiframe_message :: "path \<Rightarrow> string" where
  "multiframe_message file_path =
     path_str file_path @ '' cannot be converted.'' @ [CHR 0x0A]
       @ ''Multiframe images are currently not supported''"

text \<open>Lines 154 to 184 of \<open>_ds_to_file\<close>: process the image and save the file.\<close>

definition process_and_save ::
  "env \<Rightarrow> dataset \<Rightarrow> real ndarray \<Rightarrow> path \<Rightarrow> path \<Rightarrow> string \<Rightarrow> bool
     \<Rightarrow> (path \<rightharpoonup> path) option \<Rightarrow> world \<Rightarrow> (error + rv) \<times> world" where
  "process_and_save ev ds pa file_path target_root filetype anonymous patient_dict w =
     (case pixel_process ev ds pa of Inl e \<Rightarrow> (Inl e, w) | Inr px \<Rightarrow>
     (case (if is_color ds then channel_swap px else Inr px) of
        Inl e \<Rightarrow> (Inl e, w) | Inr px2 \<Rightarrow>
     (case get_export_file_path ds file_path target_root filetype anonymous patient_dict of
        Inl e \<Rightarrow> (Inl e, w) | Inr full_export_fp_fn \<Rightarrow>
     (case mkdir ev (parent full_export_fp_fn) of
        Some e \<Rightarrow> (Inl e, w)
      | None \<Rightarrow>
          let w1 = w\<lparr>dirs := parent full_export_fp_fn # dirs w\<rparr> in
     (case imwrite ev (path_str full_export_fp_fn) px2
             (if filetype = ''jpg'' then Some 90 else None) of
        Inl e \<Rightarrow> (Inl e, w1)
      | Inr written \<Rightarrow>
          (Inr RTrue,
           if written then w1\<lparr>files := (full_export_fp_fn, px2) # files w1\<rparr> else w1))))))"

text \<open>Lines 132 to 149: read the file, then the two checks that skip it.\<close>

definition ds_to_file ::
  "env \<Rightarrow> path \<Rightarrow> path \<Rightarrow> string \<Rightarrow> bool \<Rightarrow> (path \<rightharpoonup> path) option \<Rightarrow> world
     \<Rightarrow> (error + rv) \<times> world" where
  "ds_to_file ev file_path target_root filetype anonymous patient_dict w =
     (case dcmread ev file_path of Inl e \<Rightarrow> (Inl e, w) | Inr ds \<Rightarrow>
     (case is_unsupported ds of
        Inl e \<Rightarrow> (Inl e, w)
      | Inr (Some nm) \<Rightarrow> (Inr (RMessage (unsupported_message file_path nm)), w)
      | Inr None \<Rightarrow>
     (case pixel_array ds of Inl e \<Rightarrow> (Inl e, w) | Inr pa \<Rightarrow>
        if length (shape pa) = 3 \<and> shape pa ! 2 \<noteq> 3
        then (Inr (RMessage (multiframe_message file_path)), w)
        else process_and_save ev ds pa file_path target_root filetype anonymous
               patient_dict w)))"

section \<open>Discovery and the batch\<close>

text \<open>\<open>origin\<close> given as one path, or as a list or tuple of paths.\<close>

datatype origin_input = Single string | Many "string list"

definition walk_dicom_files :: "env \<Rightarrow> path \<Rightarrow> path list" where
  "walk_dicom_files ev origin =
     concat (map (\<lambda>(root_dir, sub_f, file).
                    map (\<lambda>f. path_div (Path root_dir) (Path f))
                        (filter (\<lambda>f. endswith (lower f) ''.dcm'') file))
                 (os_walk ev origin))"

text \<open>The loop of lines 239 to 256: it stops at the first path that raises.\<close>

fun collect_files :: "env \<Rightarrow> path list \<Rightarrow> error + path list" where
  "collect_files ev [] = Inr []"
| "collect_files ev (origin # rest) =
     (if \<not> path_exists ev origin then Inl (OSError origin)
      else if path_is_file ev origin then
        (if lower (path_suffix origin) \<noteq> ''.dcm''
         then Inl (Exception ''Input file type should be a DICOM file'')
         else (case collect_files ev rest of Inl e \<Rightarrow> Inl e | Inr fs \<Rightarrow> Inr (origin # fs)))
      else if path_is_dir ev origin then
        (case collect_files ev rest of
           Inl e \<Rightarrow> Inl e
         | Inr fs \<Rightarrow> Inr (walk_dicom_files ev origin @ fs))
      else collect_files ev rest)"

definition get_root_get_dicom_file_list ::
  "env \<Rightarrow> origin_input \<Rightarrow> string option \<Rightarrow> error + path \<times> path list" where
  "get_root_get_dicom_file_list ev origin target_root =
     (let origin_list = (case origin of Many os \<Rightarrow> map Path os | Single p \<Rightarrow> [Path p]) in
      case collect_files ev origin_list of
        Inl e \<Rightarrow> Inl e
      | Inr dicom_file_list \<Rightarrow>
          (case target_root of
             Some t \<Rightarrow> Inr (Path t, sort dicom_file_list)
           | None \<Rightarrow>
               (case origin of
                  Single p \<Rightarrow> Inr (parent (Path p), sort dicom_file_list)
                | Many [] \<Rightarrow> Inl IndexError
                | Many (p # _) \<Rightarrow> Inr (parent (Path p), sort dicom_file_list))))"

text \<open>
  The sequential list comprehension stops at the first task that raises. With the
  process pool every task is submitted and runs to its end before the \<open>with\<close> block is
  left; collecting the results re-raises the first exception in list order. The pool's
  completion order is unspecified; the effects are recorded here in list order.
\<close>

fun run_sequential ::
  "(path \<Rightarrow> world \<Rightarrow> (error + rv) \<times> world) \<Rightarrow> path list \<Rightarrow> world
     \<Rightarrow> (error + rv list) \<times> world" where
  "run_sequential task [] w = (Inr [], w)"
| "run_sequential task (f # fs) w =
     (case task f w of
        (Inl e, w1) \<Rightarrow> (Inl e, w1)
      | (Inr r, w1) \<Rightarrow>
          (case run_sequential task fs w1 of
             (Inl e, w2) \<Rightarrow> (Inl e, w2)
           | (Inr rs, w2) \<Rightarrow> (Inr (r # rs), w2)))"

fun run_pool ::
  "(path \<Rightarrow> world \<Rightarrow> (error + rv) \<times> world) \<Rightarrow> path list \<Rightarrow> world
     \<Rightarrow> (error + rv list) \<times> world" where
  "run_pool task [] w = (Inr [], w)"
| "run_pool task (f # fs) w =
     (case task f w of
        (r, w1) \<Rightarrow>
          (case run_pool task fs w1 of
             (rs, w2) \<Rightarrow>
               ((case r of
                   Inl e \<Rightarrow> Inl e
                 | Inr x \<Rightarrow> (case rs of Inl e \<Rightarrow> Inl e | Inr xs \<Rightarrow> Inr (x # xs))),
                w2)))"

definition filetypes :: "string list" where
  "filetypes = [''jpg'', ''png'', ''jpeg'', ''bmp'', ''img'', ''tiff'']"

text \<open>Lines 204 to 215: one task per discovered file, then \<open>return True\<close>.\<close>

definition dispatch ::
  "env \<Rightarrow> path \<Rightarrow> string \<Rightarrow> bool \<Rightarrow> bool \<Rightarrow> path list \<Rightarrow> world \<Rightarrow> (error + bool) \<times> world" where
  "dispatch ev target_root filetype anonymous multiprocessing dicom_file_list w =
     (let full_path_dict = None;
          task = (\<lambda>file_path.
                    ds_to_file ev file_path target_root filetype anonymous full_path_dict)
      in case (if multiprocessing then run_pool task dicom_file_list w
               else run_sequential task dicom_file_list w) of
           (Inl e, w1) \<Rightarrow> (Inl e, w1)
         | (Inr return_message, w1) \<Rightarrow> (Inr True, w1))"

definition dicom_convertor ::
  "env \<Rightarrow> origin_input \<Rightarrow> string option \<Rightarrow> string option \<Rightarrow> bool \<Rightarrow> bool \<Rightarrow> world
     \<Rightarrow> (error + bool) \<times> world" where
  "dicom_convertor ev origin target_root filetype anonymous multiprocessing w =
     (case (case filetype of
              None \<Rightarrow> Inr ''bmp''
            | Some t \<Rightarrow>
                if lower t \<notin> set filetypes
                then Inl (Exception ''Target file type should be jpg, png, or bmp'')
                else Inr t) of
        Inl e \<Rightarrow> (Inl e, w)
      | Inr ft \<Rightarrow>
     (case get_root_get_dicom_file_list ev origin target_root of
        Inl e \<Rightarrow> (Inl e, w)
      | Inr (root_folder, dicom_file_list) \<Rightarrow>
          dispatch ev root_folder ft anonymous multiprocessing dicom_file_list w))"

section \<open>A small study for concrete runs\<close>

text \<open>
  A folder \<open>/in\<close> with three files: \<open>a.dcm\<close> decodes to a dataset without SOP class
  UID, \<open>b.dcm\<close> to a 1 by 3 grayscale image, \<open>c.dcm\<close> to an encapsulated PDF. The
  external LUT functions return the array as it is, and every write succeeds.
\<close>

definition demo_ds :: dataset where
  "demo_ds =
     \<lparr>SOPClassUID = Some ''1.2.840.10008.5.1.4.1.1.2'',
      RescaleSlope = Some (Scalar 1), RescaleIntercept = Some (Scalar 0),
      VOILUTFunction = None,
      WindowCenter = Some (MultiValue [1, 7]), WindowWidth = Some (Scalar 2),
      PhotometricInterpretation = Some ''MONOCHROME2'',
      SeriesNumber = Some ''3'', InstanceNumber = None,
      pixel_array = Inr \<lparr>shape = [1, 3], data = [0, 1, 2]\<rparr>\<rparr>"

definition demo_env :: env where
  "demo_env =
     \<lparr>dcmread = (\<lambda>p. if p = [''/'', ''in'', ''a.dcm''] then Inr (demo_ds\<lparr>SOPClassUID := None\<rparr>)
                     else if p = [''/'', ''in'', ''b.dcm''] then Inr demo_ds
                     else if p = [''/'', ''in'', ''c.dcm'']
                       then Inr (demo_ds\<lparr>SOPClassUID := Some ''1.2.840.10008.5.1.4.1.1.104.1''\<rparr>)
                     else Inl (LibraryError ''FileNotFoundError'')),
      apply_modality_lut = (\<lambda>a d. Inr a),
      apply_voi_lut = (\<lambda>a d. Inr a),
      mkdir = (\<lambda>p. None),
      imwrite = (\<lambda>s a q. Inr True),
      path_exists = (\<lambda>p. p \<in> {[''/'', ''in''], [''/'', ''in'', ''a.dcm''],
                                 [''/'', ''in'', ''b.dcm''], [''/'', ''in'', ''c.dcm'']}),
      path_is_file = (\<lambda>p. p \<in> {[''/'', ''in'', ''a.dcm''], [''/'', ''in'', ''b.dcm''],
                                  [''/'', ''in'', ''c.dcm'']}),
      path_is_dir = (\<lambda>p. p = [''/'', ''in'']),
      os_walk = (\<lambda>p. if p = [''/'', ''in'']
                       then [(''/in'', [], [''b.dcm'', ''a.dcm'', ''c.dcm''])] else [])\<rparr>"

definition empty_world :: world where
  "empty_world = \<lparr>dirs = [], files = []\<rparr>"

section \<open>The window rule in the words of the specification\<close>

text \<open>
  The specification gives the \<open>LINEAR_EXACT\<close> rule as a chain of cases on one sample
  \<open>x\<close>, for width \<open>w\<close>, centre \<open>c\<close> and the extremes \<open>dmin\<close>, \<open>dmax\<close> of the array:
  \<open>dmin\<close> if \<open>x \<le> c - w/2\<close>; \<open>dmax\<close> if \<open>x > c + w/2\<close>; otherwise
  \<open>((x - c + w/2) / w) * (dmax - dmin) + dmin\<close>. This definition follows those words,
  not the code; \<open>get_LUT_value_LINEAR_EXACT\<close> above is the code.
\<close>

definition linear_exact_as_stated :: "real \<Rightarrow> real \<Rightarrow> real \<Rightarrow> real \<Rightarrow> real \<Rightarrow> real" where
  "linear_exact_as_stated w c dmin dmax x =
     (if x \<le> c - w / 2 then dmin
      else if x > c + w / 2 then dmax
      else ((x - c + w / 2) / w) * (dmax - dmin) + dmin)"

section \<open>Export paths\<close>

lemma split_on_no_sep: "c \<notin> set s \<Longrightarrow> split_on c s = [s]"
  by (induction s) auto

lemma Path_plain_name:
  assumes "CHR ''/'' \<notin> set s" and "s \<noteq> []" and "s \<noteq> ''.''"
  shows "Path s = [s]"
proof -
  from assms(1,2) have "take 1 s \<noteq> ''/''" by (cases s) auto
  moreover from assms(1,2) have "take 2 s \<noteq> ''//''" by (cases s) auto
  ultimately show ?thesis using assms by (simp add: Path_def split_on_no_sep)
qed

lemma plain_name_not_absolute: "CHR ''/'' \<notin> set s \<Longrightarrow> \<not> is_absolute [s]"
  by (cases s) (auto simp: is_absolute_def)

text \<open>
  Claim C8. Without the anonymous flag the export path is always
  \<open>target_root / "{SeriesNumber}_{InstanceNumber}.{filetype}"\<close>, with \<open>Ser\<close> and
  \<open>Ins\<close> standing in for an absent series or instance number, so the resolution never
  raises. Whenever the two identifiers and the file type hold no path separator, that
  name is a single part appended to the target root: the file lies directly in the
  target root, in no subfolder.
\<close>

theorem export_path_flat:
  fixes ds :: dataset
  defines "sn \<equiv> (case SeriesNumber ds of None \<Rightarrow> ''Ser'' | Some s \<Rightarrow> s)"
    and "inn \<equiv> (case InstanceNumber ds of None \<Rightarrow> ''Ins'' | Some s \<Rightarrow> s)"
  shows "get_export_file_path ds file_path target_root filetype False patient_dict
           = Inr (path_div target_root (Path (sn @ ''_'' @ inn @ ''.'' @ filetype)))
         \<and> (CHR ''/'' \<notin> set (sn @ inn @ filetype) \<longrightarrow>
              path_div target_root (Path (sn @ ''_'' @ inn @ ''.'' @ filetype))
                = target_root @ [sn @ ''_'' @ inn @ ''.'' @ filetype]
              \<and> parent (target_root @ [sn @ ''_'' @ inn @ ''.'' @ filetype]) = target_root)"
proof -
  let ?n = "sn @ ''_'' @ inn @ ''.'' @ filetype"
  have a: "get_export_file_path ds file_path target_root filetype False patient_dict
           = Inr (path_div target_root (Path ?n))"
    by (simp add: get_export_file_path_def get_metadata_def sn_def inn_def Let_def)
  have b: "path_div target_root (Path ?n) = target_root @ [?n]
           \<and> parent (target_root @ [?n]) = target_root"
    if h: "CHR ''/'' \<notin> set (sn @ inn @ filetype)"
  proof -
    from h have ns: "CHR ''/'' \<notin> set ?n" by auto
    have ne: "?n \<noteq> []" by simp
    have nd: "?n \<noteq> ''.''" by (cases sn) auto
    have P: "Path ?n = [?n]" by (rule Path_plain_name [OF ns ne nd])
    have na: "\<not> is_absolute [?n]" by (rule plain_name_not_absolute [OF ns])
    have "\<not> (is_absolute (target_root @ [?n]) \<and> length (target_root @ [?n]) = 1)"
      using na by (cases target_root) auto
    then show ?thesis using P na by (simp add: path_div_def parent_def)
  qed
  show ?thesis using a b by blast
qed

theorem export_path_flat_witness:
  "get_export_file_path (demo_ds\<lparr>SeriesNumber := None\<rparr>) [''/'', ''in'', ''b.dcm'']
       [''/'', ''out''] ''bmp'' False None
     = Inr [''/'', ''out'', ''Ser_Ins.bmp'']
   \<and> parent [''/'', ''out'', ''Ser_Ins.bmp''] = [''/'', ''out'']"
  using export_path_flat [of "demo_ds\<lparr>SeriesNumber := None\<rparr>" "[''/'', ''in'', ''b.dcm'']"
      "[''/'', ''out'']" "''bmp''" None]
  by (simp add: demo_ds_def)

section \<open>The anonymous branch\<close>

lemma ds_to_file_anonymous:
  "\<exists>r. ds_to_file ev file_path target_root filetype True None w = (r, w) \<and> r \<noteq> Inr RTrue"
  by (simp add: ds_to_file_def process_and_save_def get_export_file_path_def
           split: sum.split option.split)

lemma run_sequential_world:
  assumes "\<And>f w. snd (task f w) = w"
  shows "snd (run_sequential task fs w) = w"
proof (induction fs arbitrary: w)
  case Nil
  show ?case by simp
next
  case (Cons f fs)
  obtain r where r: "task f w = (r, w)" using assms [of f w] by (cases "task f w") simp
  obtain rs where rs: "run_sequential task fs w = (rs, w)"
    using Cons.IH [of w] by (cases "run_sequential task fs w") simp
  show ?case using r rs by (simp split: sum.split)
qed

lemma run_pool_world:
  assumes "\<And>f w. snd (task f w) = w"
  shows "snd (run_pool task fs w) = w"
proof (induction fs arbitrary: w)
  case Nil
  show ?case by simp
next
  case (Cons f fs)
  obtain r where r: "task f w = (r, w)" using assms [of f w] by (cases "task f w") simp
  obtain rs where rs: "run_pool task fs w = (rs, w)"
    using Cons.IH [of w] by (cases "run_pool task fs w") simp
  show ?case using r rs by simp
qed

lemma dispatch_anonymous_world:
  "snd (dispatch ev target_root filetype True multiprocessing fs w) = w"
proof -
  let ?task = "\<lambda>file_path. ds_to_file ev file_path target_root filetype True None"
  have t: "\<And>f w. snd (?task f w) = w"
    using ds_to_file_anonymous by (metis snd_conv)
  have "snd (run_pool ?task fs w) = w" "snd (run_sequential ?task fs w) = w"
    using run_pool_world [of ?task, OF t] run_sequential_world [of ?task, OF t] by blast+
  then show ?thesis
    by (cases "run_pool ?task fs w"; cases "run_sequential ?task fs w")
       (auto simp: dispatch_def Let_def split: sum.split)
qed

text \<open>
  Claim C10. \<open>_dicom_convertor\<close> always passes \<open>None\<close> as the path dictionary.
  With the anonymous flag the lookup in \<open>_get_export_file_path\<close> therefore raises for
  every dataset, no task returns \<open>True\<close>, no task touches the destination, and the
  whole batch leaves the destination as it found it.
\<close>

theorem anonymous_never_written:
  "get_export_file_path ds file_path target_root filetype True None = Inl TypeError
   \<and> fst (ds_to_file ev file_path target_root filetype True None w) \<noteq> Inr RTrue
   \<and> snd (ds_to_file ev file_path target_root filetype True None w) = w
   \<and> snd (dicom_convertor ev origin troot ftype True multiprocessing w) = w"
proof -
  have 1: "get_export_file_path ds file_path target_root filetype True None = Inl TypeError"
    by (simp add: get_export_file_path_def)
  obtain r where r: "ds_to_file ev file_path target_root filetype True None w = (r, w)" "r \<noteq> Inr RTrue"
    using ds_to_file_anonymous by blast
  have 4: "snd (dicom_convertor ev origin troot ftype True multiprocessing w) = w"
    by (simp add: dicom_convertor_def dispatch_anonymous_world split: sum.split option.split prod.split)
  show ?thesis using 1 r 4 by simp
qed

section \<open>Validation of the file type\<close>

text \<open>
  Claim C4, as the code has it. The file type is compared after \<open>lower()\<close>, and an
  absent file type stands for \<open>bmp\<close>: a token is refused exactly when its lower-case
  form is none of \<open>jpg\<close>, \<open>jpeg\<close>, \<open>png\<close>, \<open>bmp\<close>, \<open>tiff\<close> and \<open>img\<close>
  (the raw array token). A refused token raises before discovery and before any task,
  whatever the file system holds, and leaves the destination untouched; every other
  token goes on to discovery and dispatch.
\<close>

theorem filetype_validation:
  "dicom_convertor ev origin target_root filetype anonymous multiprocessing w =
     (if (\<exists>t. filetype = Some t
              \<and> lower t \<notin> {''jpg'', ''jpeg'', ''png'', ''bmp'', ''tiff'', ''img''})
      then (Inl (Exception ''Target file type should be jpg, png, or bmp''), w)
      else (case get_root_get_dicom_file_list ev origin target_root of
              Inl e \<Rightarrow> (Inl e, w)
            | Inr (root_folder, dicom_file_list) \<Rightarrow>
                dispatch ev root_folder (case filetype of None \<Rightarrow> ''bmp'' | Some t \<Rightarrow> t)
                  anonymous multiprocessing dicom_file_list w))"
  by (cases filetype) (auto simp: dicom_convertor_def filetypes_def split: sum.split prod.split)

lemma lower_simps: "lower [] = []" "lower (c # cs) = lower_char c # lower cs"
  by (simp_all add: lower_def)

theorem filetype_validation_witness:
  "dicom_convertor demo_env (Single ''/in'') None (Some ''gif'') False False empty_world
     = (Inl (Exception ''Target file type should be jpg, png, or bmp''), empty_world)"
  using filetype_validation [of demo_env "Single ''/in''" None "Some ''gif''" False False empty_world]
  by (simp add: lower_simps lower_char_def less_eq_char_def)

text \<open>
  Claim C4 as stated fails: \<open>JPG\<close> is none of the listed tokens, yet the batch
  accepts it and writes \<open>3_Ins.JPG\<close>.
\<close>

theorem uppercase_token_accepted:
  "dicom_convertor demo_env (Single ''/in/b.dcm'') None (Some ''JPG'') False False empty_world
     = (Inr True,
        \<lparr>dirs = [[''/'', ''in'']],
         files = [([''/'', ''in'', ''3_Ins.JPG''],
                   \<lparr>shape = [1, 3], data = [Some 0, Some 127, Some 255]\<rparr>)]\<rparr>)"
  by code_simp

section \<open>Skipped files\<close>

lemma process_and_save_not_message:
  "fst (process_and_save ev ds pa file_path target_root filetype anonymous patient_dict w)
     \<noteq> Inr (RMessage msg)"
  by (simp add: process_and_save_def Let_def split: sum.split option.split)

lemma ds_to_file_skip_cases:
  assumes "dcmread ev file_path = Inr ds" and "SOPClassUID ds = Some uid"
  shows "ds_to_file ev file_path target_root filetype anonymous patient_dict w =
     (if uid = ''1.2.840.10008.5.1.4.1.1.104.1''
        then (Inr (RMessage (unsupported_message file_path ''Encapsulated PDF Storage'')), w)
      else if uid = ''1.2.840.10008.5.1.4.1.1.88.59''
        then (Inr (RMessage (unsupported_message file_path ''Key Object Selection Document'')), w)
      else (case pixel_array ds of
              Inl e \<Rightarrow> (Inl e, w)
            | Inr pa \<Rightarrow>
                if length (shape pa) = 3 \<and> shape pa ! 2 \<noteq> 3
                then (Inr (RMessage (multiframe_message file_path)), w)
                else process_and_save ev ds pa file_path target_root filetype anonymous
                       patient_dict w))"
  using assms by (simp add: ds_to_file_def is_unsupported_def split: sum.split)

text \<open>
  Claim C5. For a file that decodes to a dataset carrying a SOP class UID, the task
  returns a message instead of \<open>True\<close> exactly when the UID is that of Encapsulated
  PDF Storage or of Key Object Selection Document, or the pixel array has three axes
  with a last axis other than 3. The message names the rejected class, or says that
  multiframe images are not supported, and in each case the destination is left as it
  was: no directory is made and no file is written.
\<close>

theorem skipped_iff_unsupported_or_multiframe:
  fixes target_root :: path and filetype :: string and anonymous :: bool
    and patient_dict :: "(path \<rightharpoonup> path) option" and w :: world
  assumes "dcmread ev file_path = Inr ds" and "SOPClassUID ds = Some uid"
  defines "r \<equiv> ds_to_file ev file_path target_root filetype anonymous patient_dict w"
  shows "((\<exists>msg. fst r = Inr (RMessage msg)) \<longleftrightarrow>
            uid = ''1.2.840.10008.5.1.4.1.1.104.1'' \<or> uid = ''1.2.840.10008.5.1.4.1.1.88.59''
            \<or> (\<exists>pa. pixel_array ds = Inr pa \<and> length (shape pa) = 3 \<and> shape pa ! 2 \<noteq> 3))
    \<and> ((\<exists>msg. fst r = Inr (RMessage msg)) \<longrightarrow> snd r = w)
    \<and> (uid = ''1.2.840.10008.5.1.4.1.1.104.1'' \<longrightarrow>
          r = (Inr (RMessage (unsupported_message file_path ''Encapsulated PDF Storage'')), w))
    \<and> (uid = ''1.2.840.10008.5.1.4.1.1.88.59'' \<longrightarrow>
          r = (Inr (RMessage (unsupported_message file_path ''Key Object Selection Document'')), w))
    \<and> (\<forall>pa. uid \<noteq> ''1.2.840.10008.5.1.4.1.1.104.1'' \<and> uid \<noteq> ''1.2.840.10008.5.1.4.1.1.88.59''
            \<and> pixel_array ds = Inr pa \<and> length (shape pa) = 3 \<and> shape pa ! 2 \<noteq> 3 \<longrightarrow>
          r = (Inr (RMessage (multiframe_message file_path)), w))"
proof -
  note c = ds_to_file_skip_cases [OF assms(1,2), of target_root filetype anonymous patient_dict w]
  show ?thesis
  proof (cases "uid = ''1.2.840.10008.5.1.4.1.1.104.1'' \<or> uid = ''1.2.840.10008.5.1.4.1.1.88.59''")
    case True
    then show ?thesis using c by (auto simp: r_def)
  next
    case False
    show ?thesis
    proof (cases "pixel_array ds")
      case (Inl e)
      then show ?thesis using c False by (simp add: r_def)
    next
      case (Inr pa)
      show ?thesis
      proof (cases "length (shape pa) = 3 \<and> shape pa ! 2 \<noteq> 3")
        case True
        then show ?thesis using c False Inr by (simp add: r_def)
      next
        case nm: False
        have "r = process_and_save ev ds pa file_path target_root filetype anonymous patient_dict w"
          using c False Inr nm by (auto simp: r_def)
        then have "\<And>msg. fst r \<noteq> Inr (RMessage msg)"
          using process_and_save_not_message by simp
        then show ?thesis using False Inr nm by auto
      qed
    qed
  qed
qed

theorem skipped_iff_unsupported_or_multiframe_witness:
  "ds_to_file demo_env [''/'', ''in'', ''c.dcm''] [''/'', ''out''] ''bmp'' False None empty_world
     = (Inr (RMessage (unsupported_message [''/'', ''in'', ''c.dcm''] ''Encapsulated PDF Storage'')),
        empty_world)"
  using skipped_iff_unsupported_or_multiframe
    [of demo_env "[''/'', ''in'', ''c.dcm'']"
        "demo_ds\<lparr>SOPClassUID := Some ''1.2.840.10008.5.1.4.1.1.104.1''\<rparr>"
        "''1.2.840.10008.5.1.4.1.1.104.1''" "[''/'', ''out'']" "''bmp''" False None empty_world]
  by (simp add: demo_env_def)

text \<open>
  Claim C5 as stated fails where the dataset carries no SOP class UID:
  \<open>_is_unsupported\<close> reads \<open>ds.SOPClassUID\<close> before the multiframe test, so a 2 by 2
  by 2 array (three axes, last axis 2) is not skipped; the task raises
  \<open>AttributeError\<close>.
\<close>

theorem multiframe_without_uid_raises:
  "ds_to_file
     (demo_env\<lparr>dcmread := (\<lambda>p. Inr (demo_ds\<lparr>SOPClassUID := None,
         pixel_array := Inr \<lparr>shape = [2, 2, 2], data = [0, 1, 2, 3, 4, 5, 6, 7]\<rparr>\<rparr>))\<rparr>)
     [''/'', ''in'', ''m.dcm''] [''/'', ''out''] ''bmp'' False None empty_world
   = (Inl AttributeError, empty_world)"
  by (simp add: ds_to_file_def is_unsupported_def demo_env_def demo_ds_def)

section \<open>Shapes and the channel swap\<close>

text \<open>
  The steps of \<open>_pixel_process\<close> that the module computes itself keep the shape of
  the array, and so does the channel swap where it succeeds: it permutes the samples.
\<close>

lemma pixel_process_shape:
  assumes "\<And>a d b. apply_modality_lut ev a d = Inr b \<Longrightarrow> shape b = shape a"
    and "\<And>a d b. apply_voi_lut ev a d = Inr b \<Longrightarrow> shape b = shape a"
    and "pixel_process ev ds arr = Inr px"
  shows "shape px = shape arr"
proof -
  from assms(3) obtain a1 a2 a3 a4 where
    s: "modality_step ev ds arr = Inr a1" "voi_step ev ds a1 = Inr a2"
       "normalize a2 = Inr a3" "invert_step ds a3 = Inr a4"
       "px = \<lparr>shape = shape a4, data = map astype_uint8 (data a4)\<rparr>"
    by (auto simp: pixel_process_def split: sum.splits)
  have "shape a1 = shape arr"
    using s(1) assms(1) by (auto simp: modality_step_def split: option.splits sum.splits)
  moreover have "shape a2 = shape a1"
    using s(2) assms(2)
    by (auto simp: voi_step_def get_LUT_value_LINEAR_EXACT_def Let_def
             split: option.splits sum.splits if_splits)
  moreover have "shape a3 = shape a2"
    using s(3) by (auto simp: normalize_def split: sum.splits)
  moreover have "shape a4 = shape a3"
    using s(4) by (auto simp: invert_step_def split: sum.splits if_splits)
  ultimately show ?thesis using s(5) by simp
qed

lemma channel_swap_shape:
  "channel_swap a = Inr b \<Longrightarrow> shape b = shape a \<and> length (data b) = length (data a)"
  by (auto simp: channel_swap_def split: list.splits if_splits)

lemma channel_swap_few_axes: "length (shape a) < 3 \<Longrightarrow> channel_swap a = Inl IndexError"
  by (auto simp: channel_swap_def split: list.splits)

text \<open>
  Line 171 runs for every colour interpretation of the list, whatever the shape: on an
  array with fewer than three axes the task raises \<open>IndexError\<close> before any
  directory or file is made.
\<close>

lemma color_without_channel_axis_raises:
  assumes "is_color ds" and "pixel_process ev ds pa = Inr px" and "length (shape px) < 3"
  shows "process_and_save ev ds pa file_path target_root filetype anonymous patient_dict w
           = (Inl IndexError, w)"
  using assms by (simp add: process_and_save_def channel_swap_few_axes)

text \<open>
  Claim C9 asks for the channel swap only where the array has a channel axis. A
  \<open>PALETTE COLOR\<close> image has one sample per pixel, so its array has two axes; the
  interpretation is in the list of line 169 and no test of the shape precedes line 171.
  For the 1 by 3 image of the study read as \<open>PALETTE COLOR\<close>, the task raises
  \<open>IndexError\<close> and writes nothing, where the claim has it converted unswapped.
\<close>

theorem palette_color_image_raises:
  "ds_to_file
     (demo_env\<lparr>dcmread := (\<lambda>p. Inr (demo_ds\<lparr>PhotometricInterpretation := Some ''PALETTE COLOR''\<rparr>))\<rparr>)
     [''/'', ''in'', ''p.dcm''] [''/'', ''out''] ''bmp'' False None empty_world
   = (Inl IndexError, empty_world)"
proof -
  let ?ds = "demo_ds\<lparr>PhotometricInterpretation := Some ''PALETTE COLOR''\<rparr>"
  let ?ev = "demo_env\<lparr>dcmread := (\<lambda>p. Inr ?ds)\<rparr>"
  let ?pa = "\<lparr>shape = [1, 3], data = [0, 1, 2]\<rparr> :: real ndarray"
  have px: "pixel_process ?ev ?ds ?pa
              = Inr \<lparr>shape = [1, 3], data = [Some 0, Some 127, Some 255]\<rparr>"
    by code_simp
  have col: "is_color ?ds" by code_simp
  have "process_and_save ?ev ?ds ?pa [''/'', ''in'', ''p.dcm''] [''/'', ''out''] ''bmp'' False None
          empty_world = (Inl IndexError, empty_world)"
    by (rule color_without_channel_axis_raises [OF col px]) simp
  then show ?thesis
    by (simp add: ds_to_file_def is_unsupported_def demo_ds_def)
qed

section \<open>Failures of a task in a batch\<close>

text \<open>
  What a task returns or raises does not depend on the files written before it: the
  record of effects is only extended.
\<close>

lemma process_and_save_result_world:
  "fst (process_and_save ev ds pa file_path target_root filetype anonymous patient_dict w)
     = fst (process_and_save ev ds pa file_path target_root filetype anonymous patient_dict w')"
  by (simp add: process_and_save_def Let_def split: sum.split option.split)

lemma ds_to_file_result_world:
  "fst (ds_to_file ev file_path target_root filetype anonymous patient_dict w)
     = fst (ds_to_file ev file_path target_root filetype anonymous patient_dict w')"
  using process_and_save_result_world [of ev _ _ file_path target_root filetype anonymous
      patient_dict w w']
  by (auto simp: ds_to_file_def split: sum.split option.split)

lemma run_sequential_succeeds_iff:
  assumes "\<And>f w w'. fst (task f w) = fst (task f w')"
  shows "(\<exists>rs. fst (run_sequential task fs w) = Inr rs)
           \<longleftrightarrow> (\<forall>f\<in>set fs. \<exists>r. fst (task f w) = Inr r)"
proof (induction fs arbitrary: w)
  case Nil
  then show ?case by simp
next
  case (Cons f fs)
  obtain r w1 where t: "task f w = (r, w1)" by (cases "task f w")
  show ?case
  proof (cases r)
    case (Inl e)
    then show ?thesis using t by simp
  next
    case (Inr x)
    have "\<And>g. fst (task g w1) = fst (task g w)" using assms by blast
    then show ?thesis using t Inr Cons.IH [of w1]
      by (auto split: prod.splits sum.splits)
  qed
qed

lemma run_pool_succeeds_iff:
  assumes "\<And>f w w'. fst (task f w) = fst (task f w')"
  shows "(\<exists>rs. fst (run_pool task fs w) = Inr rs)
           \<longleftrightarrow> (\<forall>f\<in>set fs. \<exists>r. fst (task f w) = Inr r)"
proof (induction fs arbitrary: w)
  case Nil
  then show ?case by simp
next
  case (Cons f fs)
  obtain r w1 where t: "task f w = (r, w1)" by (cases "task f w")
  have "\<And>g. fst (task g w1) = fst (task g w)" using assms by blast
  then show ?case using t Cons.IH [of w1]
    by (cases r) (auto split: prod.splits sum.splits)
qed

lemma dispatch_succeeds_iff:
  "fst (dispatch ev target_root filetype anonymous multiprocessing fl w) = Inr True
     \<longleftrightarrow> (\<forall>f\<in>set fl. \<exists>r. fst (ds_to_file ev f target_root filetype anonymous None w) = Inr r)"
proof -
  let ?task = "\<lambda>file_path. ds_to_file ev file_path target_root filetype anonymous None"
  have ind: "\<And>f w w'. fst (?task f w) = fst (?task f w')"
    by (rule ds_to_file_result_world)
  have "fst (dispatch ev target_root filetype anonymous multiprocessing fl w) = Inr True
          \<longleftrightarrow> (\<exists>rs. fst (if multiprocessing then run_pool ?task fl w
                             else run_sequential ?task fl w) = Inr rs)"
    by (auto simp: dispatch_def Let_def split: prod.splits sum.splits)
  also have "\<dots> \<longleftrightarrow> (\<forall>f\<in>set fl. \<exists>r. fst (?task f w) = Inr r)"
    using run_pool_succeeds_iff [of ?task fl w, OF ind]
          run_sequential_succeeds_iff [of ?task fl w, OF ind]
    by (cases multiprocessing) simp_all
  finally show ?thesis .
qed

text \<open>
  Claim C1, as the code has it. Nothing catches an exception of a task: the batch
  returns \<open>True\<close> exactly when the file type is accepted, discovery succeeds and no
  task raises. Files that are skipped with a message do not stand in the way.
\<close>

theorem batch_true_iff_no_task_raises:
  "fst (dicom_convertor ev origin target_root filetype anonymous multiprocessing w) = Inr True
     \<longleftrightarrow> (filetype = None \<or> (\<exists>t. filetype = Some t \<and> lower t \<in> set filetypes)) \<and>
         (\<exists>root_folder fl.
            get_root_get_dicom_file_list ev origin target_root = Inr (root_folder, fl) \<and>
            (\<forall>f\<in>set fl. \<exists>r.
               fst (ds_to_file ev f root_folder (case filetype of None \<Rightarrow> ''bmp'' | Some t \<Rightarrow> t)
                      anonymous None w) = Inr r))"
proof (cases "get_root_get_dicom_file_list ev origin target_root")
  case (Inl e)
  then show ?thesis
    by (auto simp: dicom_convertor_def split: option.splits)
next
  case (Inr p)
  obtain root_folder fl where p: "p = (root_folder, fl)" by (cases p)
  show ?thesis
  proof (cases filetype)
    case None
    then show ?thesis using Inr p
      by (simp add: dicom_convertor_def dispatch_succeeds_iff)
  next
    case (Some t)
    then show ?thesis using Inr p
      by (simp add: dicom_convertor_def dispatch_succeeds_iff)
  qed
qed

theorem batch_true_iff_no_task_raises_witness:
  "fst (dicom_convertor demo_env (Many [''/in/b.dcm'', ''/in/c.dcm'']) None None False True
          empty_world) = Inr True"
proof -
  have d: "get_root_get_dicom_file_list demo_env (Many [''/in/b.dcm'', ''/in/c.dcm'']) None
             = Inr ([''/'', ''in''], [[''/'', ''in'', ''b.dcm''], [''/'', ''in'', ''c.dcm'']])"
    by code_simp
  have b: "fst (ds_to_file demo_env [''/'', ''in'', ''b.dcm''] [''/'', ''in''] ''bmp'' False None
             empty_world) = Inr RTrue"
    by code_simp
  have c: "fst (ds_to_file demo_env [''/'', ''in'', ''c.dcm''] [''/'', ''in''] ''bmp'' False None
             empty_world)
           = Inr (RMessage (unsupported_message [''/'', ''in'', ''c.dcm'']
                    ''Encapsulated PDF Storage''))"
    by code_simp
  show ?thesis
    using batch_true_iff_no_task_raises
      [of demo_env "Many [''/in/b.dcm'', ''/in/c.dcm'']" None None False True empty_world]
    by (simp add: d b c)
qed

text \<open>
  Claim C1 as stated fails on the folder of the study: \<open>a.dcm\<close> comes first and its
  task raises. The sequential batch raises too, and \<open>b.dcm\<close> is never converted; with
  the process pool \<open>b.dcm\<close> is written, and the batch raises all the same.
\<close>

theorem task_failure_aborts_batch:
  "dicom_convertor demo_env (Single ''/in'') None None False False empty_world
     = (Inl AttributeError, empty_world) \<and>
   fst (dicom_convertor demo_env (Single ''/in'') None None False True empty_world)
     = Inl AttributeError"
  by code_simp

section \<open>Discovery of the files\<close>

text \<open>
  The loop over the given paths raises exactly when one of them does not exist, or is
  a file whose suffix is not \<open>.dcm\<close> in any case of letters; otherwise it collects
  each given file and, for each given folder, the files \<open>os.walk\<close> finds below it
  whose name ends in \<open>.dcm\<close>.
\<close>

lemma collect_files_raises_iff:
  "(\<exists>e. collect_files ev ps = Inl e)
     \<longleftrightarrow> (\<exists>p\<in>set ps. \<not> path_exists ev p \<or>
                         (path_is_file ev p \<and> lower (path_suffix p) \<noteq> ''.dcm''))"
  by (induction ps) (auto split: sum.splits)

lemma collect_files_returns:
  "collect_files ev ps = Inr fs \<Longrightarrow>
     fs = concat (map (\<lambda>p. if path_is_file ev p then [p]
                            else if path_is_dir ev p then walk_dicom_files ev p else []) ps)"
  by (induction ps arbitrary: fs) (auto split: sum.splits if_splits)

text \<open>
  Claim C6, for an input that is one path, a non-empty list of paths, or any list
  together with a target root. Discovery raises when a given path is missing or a
  given file has another suffix, and then the batch raises with nothing done at the
  destination; otherwise it returns the collected files sorted by path, each as often
  as it was collected.
\<close>

theorem discovery_fails_or_returns_sorted:
  assumes "origin \<noteq> Many [] \<or> target_root \<noteq> None"
  shows
    "let origin_list = (case origin of Many os \<Rightarrow> map Path os | Single p \<Rightarrow> [Path p]) in
     if \<exists>p\<in>set origin_list. \<not> path_exists ev p \<or>
                                (path_is_file ev p \<and> lower (path_suffix p) \<noteq> ''.dcm'')
     then (\<exists>e. get_root_get_dicom_file_list ev origin target_root = Inl e) \<and>
          (\<forall>filetype anonymous multiprocessing w. \<exists>e.
             dicom_convertor ev origin target_root filetype anonymous multiprocessing w
               = (Inl e, w))
     else (\<exists>fl.
             get_root_get_dicom_file_list ev origin target_root
               = Inr (case target_root of Some t \<Rightarrow> Path t | None \<Rightarrow> parent (hd origin_list), fl) \<and>
             sorted fl \<and>
             mset fl = mset (concat (map (\<lambda>p. if path_is_file ev p then [p]
                                                else if path_is_dir ev p
                                                  then walk_dicom_files ev p else [])
                                          origin_list)))"
proof -
  define origin_list where
    "origin_list = (case origin of Many os \<Rightarrow> map Path os | Single p \<Rightarrow> [Path p])"
  define bad where
    "bad \<longleftrightarrow> (\<exists>p\<in>set origin_list. \<not> path_exists ev p \<or>
                    (path_is_file ev p \<and> lower (path_suffix p) \<noteq> ''.dcm''))"
  have A: "(\<exists>e. get_root_get_dicom_file_list ev origin target_root = Inl e) \<and>
          (\<forall>filetype anonymous multiprocessing w. \<exists>e.
             dicom_convertor ev origin target_root filetype anonymous multiprocessing w
               = (Inl e, w))" if bad
  proof -
    from that obtain e where e: "collect_files ev origin_list = Inl e"
      using collect_files_raises_iff [of ev origin_list] by (auto simp: bad_def)
    then have g: "get_root_get_dicom_file_list ev origin target_root = Inl e"
      by (simp add: get_root_get_dicom_file_list_def origin_list_def)
    then show ?thesis
      by (auto simp: dicom_convertor_def split: option.splits)
  qed
  have B: "\<exists>fl.
             get_root_get_dicom_file_list ev origin target_root
               = Inr (case target_root of Some t \<Rightarrow> Path t | None \<Rightarrow> parent (hd origin_list), fl) \<and>
             sorted fl \<and>
             mset fl = mset (concat (map (\<lambda>p. if path_is_file ev p then [p]
                                                else if path_is_dir ev p
                                                  then walk_dicom_files ev p else [])
                                          origin_list))" if "\<not> bad"
  proof -
    from that have "\<not> (\<exists>e. collect_files ev origin_list = Inl e)"
      using collect_files_raises_iff [of ev origin_list] by (simp add: bad_def)
    then obtain fs where fs: "collect_files ev origin_list = Inr fs"
      by (cases "collect_files ev origin_list") auto
    have "get_root_get_dicom_file_list ev origin target_root
            = Inr (case target_root of Some t \<Rightarrow> Path t | None \<Rightarrow> parent (hd origin_list),
                   sort fs)"
      using fs assms
      by (auto simp: get_root_get_dicom_file_list_def origin_list_def
               split: option.splits origin_input.splits list.splits)
    moreover have "sorted (sort fs)" by simp
    moreover have "mset (sort fs) = mset (concat (map (\<lambda>p. if path_is_file ev p then [p]
                                                else if path_is_dir ev p
                                                  then walk_dicom_files ev p else [])
                                          origin_list))"
      using collect_files_returns [OF fs] by simp
    ultimately show ?thesis by blast
  qed
  show ?thesis
  proof (cases bad)
    case True
    with A show ?thesis unfolding bad_def origin_list_def Let_def by simp
  next
    case False
    with B show ?thesis unfolding bad_def origin_list_def Let_def by auto
  qed
qed

theorem discovery_fails_or_returns_sorted_witness:
  "get_root_get_dicom_file_list demo_env (Single ''/in'') None
     = Inr ([''/''], [[''/'', ''in'', ''a.dcm''], [''/'', ''in'', ''b.dcm''],
                      [''/'', ''in'', ''c.dcm'']]) \<and>
   sorted [[''/'', ''in'', ''a.dcm''], [''/'', ''in'', ''b.dcm''], [''/'', ''in'', ''c.dcm'']] \<and>
   walk_dicom_files demo_env [''/'', ''in'']
     = [[''/'', ''in'', ''b.dcm''], [''/'', ''in'', ''a.dcm''], [''/'', ''in'', ''c.dcm'']]"
proof -
  have d: "get_root_get_dicom_file_list demo_env (Single ''/in'') None
     = Inr ([''/''], [[''/'', ''in'', ''a.dcm''], [''/'', ''in'', ''b.dcm''],
                      [''/'', ''in'', ''c.dcm'']])"
    by code_simp
  have p: "Path ''/in'' = [''/'', ''in'']" by code_simp
  have wk: "walk_dicom_files demo_env [''/'', ''in'']
     = [[''/'', ''in'', ''b.dcm''], [''/'', ''in'', ''a.dcm''], [''/'', ''in'', ''c.dcm'']]"
    by code_simp
  have ok: "path_exists demo_env [''/'', ''in'']" "\<not> path_is_file demo_env [''/'', ''in'']"
    by code_simp+
  show ?thesis
    using discovery_fails_or_returns_sorted [of "Single ''/in''" None demo_env]
    by (simp add: d p wk ok)
qed

text \<open>
  Claim C6 as stated fails on the empty list with no target root: no path is missing
  and no file has a wrong suffix, yet line 265 takes the first element of the list and
  raises \<open>IndexError\<close>.
\<close>

theorem empty_input_list_raises:
  "get_root_get_dicom_file_list demo_env (Many []) None = Inl IndexError"
  by code_simp

section \<open>Flat arrays\<close>





section \<open>The window rule\<close>

text \<open>The extremes \<open>min()\<close> and \<open>max()\<close> of a non-empty array.\<close>

lemma amin_Min: "xs \<noteq> [] \<Longrightarrow> amin xs = Inr (Min (set xs))"
  by (cases xs) (simp_all add: amin_def Min.set_eq_fold [symmetric])

lemma amax_Max: "xs \<noteq> [] \<Longrightarrow> amax xs = Inr (Max (set xs))"
  by (cases xs) (simp_all add: amax_def Max.set_eq_fold [symmetric])

text \<open>
  \<open>np.piecewise\<close> with two conditions and three functions: the second condition
  overwrites the first where both hold.
\<close>

lemma piecewise_two_conditions:
  "piecewise xs [c1, c2] [f1, f2, f3]
     = map (\<lambda>x. if c2 x then f2 x else if c1 x then f1 x else f3 x) xs"
  by (simp add: piecewise_def)

text \<open>
  Claim C3, with the order of the cases as the code has it. When the function is not
  \<open>SIGMOID\<close> and both window values are present, each a number or a sequence
  starting with one, a non-empty array is mapped sample by sample: \<open>dmax\<close> above
  \<open>c + w/2\<close>, otherwise \<open>dmin\<close> up to \<open>c - w/2\<close>, otherwise the linear formula. For a
  width that is not negative this is the rule as the specification words it.
\<close>

theorem window_rule:
  assumes "VOILUTFunction ds \<noteq> Some ''SIGMOID''"
    and "WindowCenter ds = Some wc" and "wc = Scalar c \<or> (\<exists>vs. wc = MultiValue (c # vs))"
    and "WindowWidth ds = Some ww" and "ww = Scalar w \<or> (\<exists>vs. ww = MultiValue (w # vs))"
    and "data arr \<noteq> []"
  shows "voi_step ev ds arr
           = Inr (arr\<lparr>data :=
                    map (\<lambda>x. if x > c + w / 2 then Max (set (data arr))
                              else if x \<le> c - w / 2 then Min (set (data arr))
                              else ((x - c + w / 2) / w) * (Max (set (data arr)) - Min (set (data arr)))
                                   + Min (set (data arr)))
                        (data arr)\<rparr>) \<and>
         (0 \<le> w \<longrightarrow>
            voi_step ev ds arr
              = Inr (arr\<lparr>data :=
                       map (linear_exact_as_stated w c (Min (set (data arr))) (Max (set (data arr))))
                           (data arr)\<rparr>))"
proof -
  have c: "first_float wc = Inr c" using assms(3) by (auto simp: first_float_def py_float_def)
  have w: "first_float ww = Inr w" using assms(5) by (auto simp: first_float_def py_float_def)
  have v: "voi_step ev ds arr = get_LUT_value_LINEAR_EXACT arr w c"
    using assms(1,2,4) c w by (simp add: voi_step_def)
  have g: "get_LUT_value_LINEAR_EXACT arr w c
           = Inr (arr\<lparr>data :=
                    map (\<lambda>x. if x > c + w / 2 then Max (set (data arr))
                              else if x \<le> c - w / 2 then Min (set (data arr))
                              else ((x - c + w / 2) / w) * (Max (set (data arr)) - Min (set (data arr)))
                                   + Min (set (data arr)))
                        (data arr)\<rparr>)"
    using assms(6)
    by (simp add: get_LUT_value_LINEAR_EXACT_def amin_Min amax_Max piecewise_two_conditions)
  have s: "(\<lambda>x. if x > c + w / 2 then Max (set (data arr))
                              else if x \<le> c - w / 2 then Min (set (data arr))
                              else ((x - c + w / 2) / w) * (Max (set (data arr)) - Min (set (data arr)))
                                   + Min (set (data arr)))
            = linear_exact_as_stated w c (Min (set (data arr))) (Max (set (data arr)))"
    if "0 \<le> w"
    using that by (auto simp: linear_exact_as_stated_def fun_eq_iff)
  show ?thesis using v g s by simp
qed

theorem window_rule_witness:
  "voi_step demo_env demo_ds \<lparr>shape = [1, 4], data = [0, 1, 2, 4]\<rparr>
     = Inr \<lparr>shape = [1, 4], data = [0, 2, 4, 4]\<rparr> \<and>
   map (linear_exact_as_stated 2 1 0 4) [0, 1, 2, 4] = [0, 2, 4, 4]"
proof -
  have mm: "Min (set [0, 1, 2, 4 :: real]) = 0" "Max (set [0, 1, 2, 4 :: real]) = 4"
    by simp_all
  have f: "VOILUTFunction demo_ds \<noteq> Some ''SIGMOID''"
    "WindowCenter demo_ds = Some (MultiValue [1, 7])" "WindowWidth demo_ds = Some (Scalar 2)"
    by (simp_all add: demo_ds_def)
  show ?thesis
    using window_rule [of demo_ds "MultiValue [1, 7]" 1 "Scalar 2" 2
                          "\<lparr>shape = [1, 4], data = [0, 1, 2, 4]\<rparr>" demo_env]
    by (simp add: f mm linear_exact_as_stated_def)
qed

text \<open>
  Claim C3 as stated fails for a negative width: with centre 0 and width \<open>-2\<close> the
  sample 0 satisfies both conditions (it is at most 1 and above \<open>-1\<close>). The code gives
  it \<open>dmax\<close>, the second condition overwriting the first, where the stated rule gives
  \<open>dmin\<close>.
\<close>

theorem negative_width_gives_dmax:
  "voi_step demo_env
     (demo_ds\<lparr>WindowCenter := Some (Scalar 0), WindowWidth := Some (Scalar (- 2))\<rparr>)
     \<lparr>shape = [1, 2], data = [0, 5]\<rparr>
     = Inr \<lparr>shape = [1, 2], data = [5, 5]\<rparr> \<and>
   map (linear_exact_as_stated (- 2) 0 0 5) [0, 5] = [0, 5]"
  by code_simp

end
